theory Spec2Isabelle
  imports Main "HOL-Library.Word"
begin

section \<open>Go values used by the client\<close>

text \<open>
  Bytes are 8-bit words. Message and SURB identifiers are fixed-length byte arrays
  (\<open>[MessageIDLength]byte\<close>, \<open>[SURBIDLength]byte\<close>); they are used as map keys by value.
  A \<open>*Message\<close> is an address into a store of messages: the timer queue, the SURB map
  and the message-id map all hold the same pointer.
\<close>

type_synonym byte = "8 word"
type_synonym bytes = "byte list"
type_synonym msgid = bytes
type_synonym surbid = bytes
type_synonym addr = nat

text \<open>
  A call either comes back with a value or panics (a nil dereference, a failed type
  assertion, an explicit \<open>panic(err)\<close>).
\<close>

datatype 'a outcome = Ok 'a | Panic string

definition MessageIDLength :: nat where
  "MessageIDLength = 16"

text \<open>
  Go's \<open>int\<close>, \<open>int64\<close> and \<open>time.Duration\<close> are 64-bit two's complement: arithmetic
  wraps. \<open>uint64(x)\<close> reinterprets the same 64 bits. Integer division truncates
  toward zero.
\<close>

definition int64 :: "int \<Rightarrow> int" where
  "int64 x = (x + 2 ^ 63) mod 2 ^ 64 - 2 ^ 63"

definition uint64 :: "int \<Rightarrow> int" where
  "uint64 x = x mod 2 ^ 64"

definition quot :: "int \<Rightarrow> int \<Rightarrow> int" where
  "quot a b = (if (a < 0) = (b < 0) then \<bar>a\<bar> div \<bar>b\<bar> else - (\<bar>a\<bar> div \<bar>b\<bar>))"

definition maxDuration :: int where
  "maxDuration = 2 ^ 63 - 1"

definition minDuration :: int where
  "minDuration = - (2 ^ 63)"

text \<open>
  A \<open>time.Time\<close> is an instant, here its number of nanoseconds since the Unix epoch.
  The type counts seconds in 64 bits, so \<open>Add\<close> is exact at nanosecond scale;
  \<open>UnixNano\<close> returns the instant as an \<open>int64\<close>, and \<open>Sub\<close> saturates at the
  largest and smallest \<open>Duration\<close>.
\<close>

definition Add :: "int \<Rightarrow> int \<Rightarrow> int" where
  "Add t d = t + d"

definition UnixNano :: "int \<Rightarrow> int" where
  "UnixNano t = int64 t"

definition Sub :: "int \<Rightarrow> int \<Rightarrow> int" where
  "Sub t u = (if maxDuration < t - u then maxDuration
              else if t - u < minDuration then minDuration else t - u)"

section \<open>Messages (session/send.go)\<close>

record Message =
  ID :: msgid
  Recipient :: string
  Provider :: string
  Payload :: bytes
  SentAt :: int
  ReplyETA :: int
  SURBID :: "surbid option"
  Key :: bytes
  Reply :: bytes
  SURBType :: int
  Reliable :: bool
  Transmissions :: int

definition maxTransmissions :: int where
  "maxTransmissions = 3"

text \<open>
  \<open>uint64(m.SentAt.Add(m.ReplyETA/2).Add(time.Duration(m.Transmissions+1)*m.ReplyETA).UnixNano())\<close>
\<close>

definition expiry :: "Message \<Rightarrow> int" where
  "expiry m =
     uint64 (UnixNano (Add (Add (SentAt m) (quot (ReplyETA m) 2))
                           (int64 (int64 (Transmissions m + 1) * ReplyETA m))))"

text \<open>\<open>m.SentAt.Add(m.ReplyETA).Sub(time.Now())\<close>, with the clock's reading passed in.\<close>

definition timeLeft :: "Message \<Rightarrow> int \<Rightarrow> int" where
  "timeLeft m now = Sub (Add (SentAt m) (ReplyETA m)) now"

section \<open>The priority queue of the core library\<close>

text \<open>
  Modelled from the spec: the priority queue (\<open>core/queue\<close>, imported by the timer
  queue) is not among the sources. The spec describes it as holding entries
  \<open>(deadline, message reference)\<close> ordered by deadline ascending, from which the
  earliest entry is inspected and popped. It is a list of entries kept in ascending
  priority; an entry of equal priority goes behind the ones already there.
  \<open>priq_Remove p\<close> takes out the first entry of priority \<open>p\<close> and returns its value,
  or nil (\<open>None\<close>) when there is none.
\<close>

record Entry =
  Value :: addr
  Priority :: int

type_synonym PriorityQueue = "Entry list"

fun priq_Enqueue :: "int \<Rightarrow> addr \<Rightarrow> PriorityQueue \<Rightarrow> PriorityQueue" where
  "priq_Enqueue p v [] = [\<lparr>Value = v, Priority = p\<rparr>]"
| "priq_Enqueue p v (e # es) =
     (if p < Priority e then \<lparr>Value = v, Priority = p\<rparr> # e # es
      else e # priq_Enqueue p v es)"

definition priq_Peek :: "PriorityQueue \<Rightarrow> Entry option" where
  "priq_Peek q = (case q of [] \<Rightarrow> None | e # _ \<Rightarrow> Some e)"

definition priq_Pop :: "PriorityQueue \<Rightarrow> Entry option \<times> PriorityQueue" where
  "priq_Pop q = (case q of [] \<Rightarrow> (None, []) | e # es \<Rightarrow> (Some e, es))"

definition priq_Len :: "PriorityQueue \<Rightarrow> nat" where
  "priq_Len q = length q"

fun priq_Remove :: "int \<Rightarrow> PriorityQueue \<Rightarrow> addr option \<times> PriorityQueue" where
  "priq_Remove p [] = (None, [])"
| "priq_Remove p (e # es) =
     (if Priority e = p then (Some (Value e), es)
      else (case priq_Remove p es of (r, es') \<Rightarrow> (r, e # es')))"

section \<open>The timer queue (TimerQ)\<close>

text \<open>
  The queue's own state is the priority queue and the number of \<open>Signal\<close> calls made
  on its condition variable. The downstream queue \<open>nextQ\<close> is an interface with one
  method \<open>Push(*Message) error\<close>: here a function from the downstream state and the
  message to an error or the new downstream state.
\<close>

record TimerQ =
  priq :: PriorityQueue
  signals :: nat

type_synonym 'q nqueue = "'q \<Rightarrow> addr \<Rightarrow> string + 'q"

definition nil_dereference :: string where
  "nil_dereference = ''invalid memory address or nil pointer dereference''"

definition Push :: "(addr \<rightharpoonup> Message) \<Rightarrow> TimerQ \<Rightarrow> addr \<Rightarrow> TimerQ outcome" where
  "Push h a m =
     (case h m of
        None \<Rightarrow> Panic nil_dereference
      | Some msg \<Rightarrow>
          Ok (a\<lparr>priq := priq_Enqueue (expiry msg) m (priq a), signals := signals a + 1\<rparr>))"

text \<open>
  \<open>Remove\<close> as written: the \<open>else\<close> belongs to the outer \<open>if\<close>, so it runs only when
  \<open>Peek\<close> returned nil. Its switch evaluates \<open>m == mo.(*Message)\<close> first: the type
  assertion panics on a nil interface, and for a non-nil \<open>mo\<close> the case value is a
  bool, which never equals the switch value, so the default returns the error.
\<close>

definition Remove :: "(addr \<rightharpoonup> Message) \<Rightarrow> TimerQ \<Rightarrow> addr \<Rightarrow> (TimerQ \<times> string option) outcome" where
  "Remove h a m =
     (case priq_Peek (priq a) of
        Some mo \<Rightarrow>
          (if Value mo = m then
             (let q' = snd (priq_Pop (priq a)) in
              Ok (a\<lparr>priq := q', signals := (if 0 < priq_Len q' then signals a + 1 else signals a)\<rparr>,
                  None))
           else Ok (a, None))
      | None \<Rightarrow>
          (case h m of
             None \<Rightarrow> Panic nil_dereference
           | Some msg \<Rightarrow>
               (case priq_Remove (expiry msg) (priq a) of
                  (None, q') \<Rightarrow>
                    Panic ''interface conversion: interface {} is nil, not *session.Message''
                | (Some mo, q') \<Rightarrow> Ok (a\<lparr>priq := q'\<rparr>, Some ''Failed to remove''))))"

text \<open>
  \<open>forward\<close> pops the top entry and pushes its message downstream; a downstream error
  is passed to \<open>panic\<close>.
\<close>

definition forward :: "'q nqueue \<Rightarrow> TimerQ \<times> 'q \<Rightarrow> (TimerQ \<times> 'q) outcome" where
  "forward nq s =
     (case s of (a, q) \<Rightarrow>
        (case priq_Pop (priq a) of
           (None, q') \<Rightarrow> Ok (a\<lparr>priq := q'\<rparr>, q)
         | (Some m, q') \<Rightarrow>
             (case nq q (Value m) of
                Inl err \<Rightarrow> Panic err
              | Inr qn \<Rightarrow> Ok (a\<lparr>priq := q'\<rparr>, qn))))"

text \<open>
  One turn of the worker's loop. The clock's reading \<open>now\<close> (taken by \<open>timeLeft\<close>)
  and the channel the \<open>select\<close> receives from are inputs. When the head has no time
  left the worker forwards at once, at \<open>now\<close>. Otherwise it arms
  \<open>c = time.After(tl)\<close>, which delivers once \<open>tl\<close> has elapsed: a turn whose
  \<open>select\<close> receives from \<open>c\<close> forwards at the instant \<open>now + tl\<close>. With an empty
  queue \<open>c\<close> stays nil, and a nil channel is never ready. \<open>Forwarded t s\<close> records
  the instant \<open>t\<close> at which \<open>forward\<close> was called. No other goroutine runs between
  the worker's \<open>Unlock\<close> and the \<open>Lock\<close> of \<open>forward\<close> in these turns.
\<close>

datatype select = HaltCh | TimerCh | WakeupCh

datatype 's loop = Forwarded int 's | Continue 's | Return | NotReady

definition worker_turn ::
  "(addr \<rightharpoonup> Message) \<Rightarrow> 'q nqueue \<Rightarrow> int \<Rightarrow> select \<Rightarrow> TimerQ \<times> 'q \<Rightarrow> (TimerQ \<times> 'q) loop outcome" where
  "worker_turn h nq now sel s =
     (case priq_Peek (priq (fst s)) of
        Some m \<Rightarrow>
          (case h (Value m) of
             None \<Rightarrow> Panic nil_dereference
           | Some msg \<Rightarrow>
               (let tl = timeLeft msg now in
                if tl < 0 then
                  (case forward nq s of
                     Panic p \<Rightarrow> Panic p
                   | Ok s' \<Rightarrow> Ok (Forwarded now s'))
                else
                  (case sel of
                     HaltCh \<Rightarrow> Ok Return
                   | TimerCh \<Rightarrow>
                       (case forward nq s of
                          Panic p \<Rightarrow> Panic p
                        | Ok s' \<Rightarrow> Ok (Forwarded (now + tl) s'))
                   | WakeupCh \<Rightarrow> Ok (Continue s))))
      | None \<Rightarrow>
          (case sel of
             HaltCh \<Rightarrow> Ok Return
           | TimerCh \<Rightarrow> Ok NotReady
           | WakeupCh \<Rightarrow> Ok (Continue s)))"

text \<open>
  The worker run against a schedule: each turn gets the clock's reading and the
  channel that became ready. It stops at \<open>Return\<close> (halted), at a panic, or when the
  schedule ends.
\<close>

fun worker :: "(addr \<rightharpoonup> Message) \<Rightarrow> 'q nqueue \<Rightarrow> (int \<times> select) list \<Rightarrow> TimerQ \<times> 'q \<Rightarrow> (TimerQ \<times> 'q) outcome" where
  "worker h nq [] s = Ok s"
| "worker h nq ((now, sel) # sched) s =
     (case worker_turn h nq now sel s of
        Panic p \<Rightarrow> Panic p
      | Ok Return \<Rightarrow> Ok s
      | Ok NotReady \<Rightarrow> worker h nq sched s
      | Ok (Continue s') \<Rightarrow> worker h nq sched s'
      | Ok (Forwarded t s') \<Rightarrow> worker h nq sched s')"

section \<open>The session of package session (send.go)\<close>

text \<open>
  The fields of the session that \<open>send.go\<close> uses. \<open>heap\<close> is the store of messages
  and \<open>next_addr\<close> the next fresh address. \<open>replyNotifyMap\<close> maps a message id to
  its own mutex, here the mutex's state (\<open>True\<close> when locked); a missing key reads
  as a nil pointer.
\<close>

record Session =
  heap :: "addr \<rightharpoonup> Message"
  next_addr :: addr
  surbIDMap :: "surbid \<rightharpoonup> addr"
  messageIDMap :: "msgid \<rightharpoonup> addr"
  replyNotifyMap :: "msgid \<rightharpoonup> bool"
  egressQueue :: "addr list"
  tq :: TimerQ

definition empty_Session :: Session where
  "empty_Session =
     \<lparr>heap = Map.empty, next_addr = 0, surbIDMap = Map.empty, messageIDMap = Map.empty,
      replyNotifyMap = Map.empty, egressQueue = [], tq = \<lparr>priq = [], signals = 0\<rparr>\<rparr>"

text \<open>
  What one call of \<open>doSend\<close> gets from outside: the bytes read from the random
  source, the transport's \<open>SendCiphertext\<close> and the clock.
\<close>

record SendEnv =
  rand_surbID :: surbid
  SendCiphertext :: "string \<Rightarrow> string \<Rightarrow> surbid \<Rightarrow> bytes \<Rightarrow> string + bytes \<times> int"
  time_Now :: int

definition doSend :: "SendEnv \<Rightarrow> Session \<Rightarrow> addr \<Rightarrow> (Session \<times> string option) outcome" where
  "doSend env s msg =
     (case heap s msg of
        None \<Rightarrow> Panic nil_dereference
      | Some m \<Rightarrow>
          (if 0 < Transmissions m \<and> maxTransmissions \<le> Transmissions m then Ok (s, None)
           else
             (case SendCiphertext env (Recipient m) (Provider m) (rand_surbID env) (Payload m) of
                Inl err \<Rightarrow> Ok (s, Some err)
              | Inr (key, eta) \<Rightarrow>
                  (let m' = m\<lparr>Key := key, SentAt := time_Now env, ReplyETA := eta,
                               Transmissions := int64 (Transmissions m + 1)\<rparr>;
                       s1 = s\<lparr>heap := (heap s)(msg \<mapsto> m')\<rparr>
                   in if Reliable m' then
                        (case Push (heap s1) (tq s1) msg of
                           Panic p \<Rightarrow> Panic p
                         | Ok t \<Rightarrow>
                             Ok (s1\<lparr>tq := t,
                                     surbIDMap := (surbIDMap s1)(rand_surbID env \<mapsto> msg)\<rparr>,
                                 None))
                      else Ok (s1\<lparr>surbIDMap := (surbIDMap s1)(rand_surbID env \<mapsto> msg)\<rparr>, None)))))"

text \<open>
  What \<open>SendMessage\<close> gets from outside: the random message id, the payload length
  and SURB type constants of the core and client constant packages, and the egress
  queue's \<open>Push\<close>.
\<close>

record ComposeEnv =
  rand_ID :: msgid
  UserForwardPayloadLength :: nat
  SurbTypeACK :: int
  SurbTypeKaetzchen :: int
  egressQueue_Push :: "addr list \<Rightarrow> addr \<Rightarrow> string + addr list"

definition composeMessage :: "ComposeEnv \<Rightarrow> string \<Rightarrow> string \<Rightarrow> bytes \<Rightarrow> bool \<Rightarrow> string + Message" where
  "composeMessage env recipient provider message query =
     (if UserForwardPayloadLength env < length message then Inl ''invalid message size''
      else Inr \<lparr>ID = rand_ID env, Recipient = recipient, Provider = provider,
                Payload = message @ replicate (UserForwardPayloadLength env - length message) 0,
                SentAt = 0, ReplyETA = 0, SURBID = None, Key = [], Reply = [],
                SURBType = (if query then SurbTypeKaetzchen env else SurbTypeACK env),
                Reliable = False, Transmissions = 0\<rparr>)"

definition SendMessage ::
  "ComposeEnv \<Rightarrow> Session \<Rightarrow> string \<Rightarrow> string \<Rightarrow> bytes \<Rightarrow> bool \<Rightarrow> bool \<Rightarrow> Session \<times> (string + msgid)" where
  "SendMessage env s recipient provider message reliable query =
     (case composeMessage env recipient provider message query of
        Inl err \<Rightarrow> (s, Inl err)
      | Inr msg0 \<Rightarrow>
          (let msg = msg0\<lparr>Reliable := reliable\<rparr>;
               a = next_addr s;
               s1 = s\<lparr>heap := (heap s)(a \<mapsto> msg), next_addr := a + 1,
                      replyNotifyMap := (replyNotifyMap s)(ID msg \<mapsto> True),
                      messageIDMap := (messageIDMap s)(ID msg \<mapsto> a)\<rparr>
           in case egressQueue_Push env (egressQueue s1) a of
                Inl err \<Rightarrow> (s1, Inl err)
              | Inr q \<Rightarrow> (s1\<lparr>egressQueue := q\<rparr>, Inr (ID msg))))"

text \<open>
  \<open>WaitForReply\<close>: the mutex read from \<open>replyNotifyMap\<close> is locked without a nil
  check; \<open>Lock\<close> on a locked mutex blocks until another goroutine unlocks it. After
  the lock is taken, \<open>messageIDMap[*msgId].Reply\<close> is read, again without a check.
\<close>

datatype 'a wait = Returned 'a | Blocked

definition WaitForReply :: "Session \<Rightarrow> msgid \<Rightarrow> (Session \<times> bytes) wait outcome" where
  "WaitForReply s msgId =
     (case replyNotifyMap s msgId of
        None \<Rightarrow> Panic nil_dereference
      | Some locked \<Rightarrow>
          (if locked then Ok Blocked
           else
             (case messageIDMap s msgId of
                None \<Rightarrow> Panic nil_dereference
              | Some a \<Rightarrow>
                  (case heap s a of
                     None \<Rightarrow> Panic nil_dereference
                   | Some m \<Rightarrow>
                       Ok (Returned (s\<lparr>replyNotifyMap := (replyNotifyMap s)(msgId \<mapsto> True)\<rparr>,
                                     Reply m))))))"

text \<open>
  \<open>sendLoopDecoy\<close> builds a message of its own (zero payload, fresh id, not reliable,
  not entered in the id maps) for the service that \<open>GetService\<close> returns as a name
  and a provider, and hands it to \<open>doSend\<close>.
\<close>

definition sendLoopDecoy ::
  "(string \<Rightarrow> string + string \<times> string) \<Rightarrow> ComposeEnv \<Rightarrow> SendEnv \<Rightarrow> Session \<Rightarrow>
     (Session \<times> string option) outcome" where
  "sendLoopDecoy GetService cenv env s =
     (case GetService ''loop'' of
        Inl err \<Rightarrow> Ok (s, Some err)
      | Inr (name, provider) \<Rightarrow>
          (let msg = \<lparr>ID = rand_ID cenv, Recipient = name, Provider = provider,
                      Payload = replicate (UserForwardPayloadLength cenv) 0,
                      SentAt = 0, ReplyETA = 0, SURBID = None, Key = [], Reply = [],
                      SURBType = 0, Reliable = False, Transmissions = 0\<rparr>;
               a = next_addr s
           in doSend env (s\<lparr>heap := (heap s)(a \<mapsto> msg), next_addr := a + 1\<rparr>) a))"

text \<open>
  The life of a session as far as \<open>send.go\<close> drives it: messages are created by
  \<open>SendMessage\<close> and \<open>sendLoopDecoy\<close>, and \<open>doSend\<close> is called on a message for its
  first transmission (by \<open>sendNext\<close>, on the message at the head of the egress queue)
  and for every retransmission the timer queue hands back.
\<close>

datatype op =
  OpSendMessage ComposeEnv string string bytes bool bool
| OpDoSend SendEnv addr
| OpSendLoopDecoy "string \<Rightarrow> string + string \<times> string" ComposeEnv SendEnv

fun step :: "op \<Rightarrow> Session \<Rightarrow> Session outcome" where
  "step (OpSendMessage env recipient provider message reliable query) s =
     Ok (fst (SendMessage env s recipient provider message reliable query))"
| "step (OpDoSend env msg) s =
     (case doSend env s msg of Panic p \<Rightarrow> Panic p | Ok (s', err) \<Rightarrow> Ok s')"
| "step (OpSendLoopDecoy GetService cenv env) s =
     (case sendLoopDecoy GetService cenv env s of Panic p \<Rightarrow> Panic p | Ok (s', err) \<Rightarrow> Ok s')"

fun run :: "op list \<Rightarrow> Session \<Rightarrow> Session outcome" where
  "run [] s = Ok s"
| "run (x # xs) s = (case step x s of Panic p \<Rightarrow> Panic p | Ok s' \<Rightarrow> run xs s')"

section \<open>The session of package client (session.go)\<close>

text \<open>
  Blocks and keys come from the minclient and core libraries. A block carries its
  message's id, the number of blocks of the message, its own index and its payload.
\<close>

type_synonym PublicKey = bytes

record Block =
  MessageID :: msgid
  TotalBlocks :: "16 word"
  BlockID :: "16 word"
  Block_Payload :: bytes

definition IngressBlockVersion :: byte where
  "IngressBlockVersion = 0"

record IngressBlock =
  Version :: byte
  SenderPubKey :: PublicKey
  Block :: Block

record EgressBlock =
  ReliableSend :: bool
  Egress_Recipient :: string
  Egress_Provider :: string
  Egress_BlockID :: "16 word"
  Egress_MessageID :: "msgid option"
  Egress_Payload :: bytes
  Expiration :: int
  Egress_SURBID :: "surbid option"
  SURBKeys :: bytes

text \<open>
  The library calls the session makes: the (de)serialisers of keys and blocks used by
  \<open>ToBytes\<close> and \<open>FromBytes\<close>, block decryption with the session's identity key,
  SURB payload decryption, and the retransmission scheduler's
  \<open>CancelRetransmission\<close>, whose code is not among the sources and whose result is
  taken as given.
\<close>

record Libs =
  PublicKeySize :: nat
  MarshalBinary :: "PublicKey \<Rightarrow> string + bytes"
  PublicKey_FromBytes :: "bytes \<Rightarrow> string + PublicKey"
  Block_ToBytes :: "Block \<Rightarrow> string + bytes"
  Block_FromBytes :: "bytes \<Rightarrow> string + Block"
  DecryptBlock :: "bytes \<Rightarrow> string + Block \<times> PublicKey"
  DecryptSURBPayload :: "bytes \<Rightarrow> bytes \<Rightarrow> string + bytes"
  CancelRetransmission :: "surbid \<Rightarrow> string option"

text \<open>
  \<open>utils.CtIsZero\<close> of the core library: the buffer holds only zero bytes.
\<close>

definition CtIsZero :: "bytes \<Rightarrow> bool" where
  "CtIsZero b = list_all (\<lambda>x. x = 0) b"

definition ToBytes :: "Libs \<Rightarrow> IngressBlock \<Rightarrow> string + bytes" where
  "ToBytes l i =
     (case MarshalBinary l (SenderPubKey i) of
        Inl err \<Rightarrow> Inl err
      | Inr rawSenderPubKey \<Rightarrow>
          (case Block_ToBytes l (Block i) of
             Inl err \<Rightarrow> Inl err
           | Inr rawBlock \<Rightarrow> Inr ([IngressBlockVersion] @ rawSenderPubKey @ rawBlock)))"

text \<open>
  \<open>FromBytes\<close>: the version mismatch builds an error and drops it. \<open>raw[0]\<close> and the
  two slice expressions panic when \<open>raw\<close> is too short (a slice is taken to have no
  spare capacity).
\<close>

definition FromBytes :: "Libs \<Rightarrow> bytes \<Rightarrow> (string + IngressBlock) outcome" where
  "FromBytes l raw =
     (if raw = [] then Panic ''index out of range''
      else if length raw < PublicKeySize l + 1 then Panic ''slice bounds out of range''
      else
        (case PublicKey_FromBytes l (take (PublicKeySize l) (drop 1 raw)) of
           Inl err \<Rightarrow> Ok (Inl err)
         | Inr pubKey \<Rightarrow>
             (case Block_FromBytes l (drop (PublicKeySize l + 1) raw) of
                Inl err \<Rightarrow> Ok (Inl err)
              | Inr b \<Rightarrow> Ok (Inr \<lparr>Version = hd raw, SenderPubKey = pubKey, Block = b\<rparr>))))"

text \<open>The loop of \<open>onMessage\<close> over the raw blocks: it returns at the first error.\<close>

fun FromBytes_all :: "Libs \<Rightarrow> bytes list \<Rightarrow> (string + IngressBlock list) outcome" where
  "FromBytes_all l [] = Ok (Inr [])"
| "FromBytes_all l (b # bs) =
     (case FromBytes l b of
        Panic p \<Rightarrow> Panic p
      | Ok (Inl err) \<Rightarrow> Ok (Inl err)
      | Ok (Inr i) \<Rightarrow>
          (case FromBytes_all l bs of
             Panic p \<Rightarrow> Panic p
           | Ok (Inl err) \<Rightarrow> Ok (Inl err)
           | Ok (Inr is) \<Rightarrow> Ok (Inr (i # is))))"

text \<open>
  Modelled from the spec: \<open>reassemble\<close> is called by \<open>onMessage\<close> and is not among the
  sources. The spec: reassembly succeeds only when fragments for every index
  \<open>0..totalBlocks-1\<close> are present, at which point blocks are concatenated in index
  order into the final plaintext; otherwise it fails (no message, an error).
\<close>

definition reassemble :: "IngressBlock list \<Rightarrow> bytes \<times> string option" where
  "reassemble bs =
     (case bs of
        [] \<Rightarrow> ([], Some ''no blocks'')
      | b # _ \<Rightarrow>
          (let n = unat (TotalBlocks (Block b)) in
           if list_all (\<lambda>i. list_ex (\<lambda>x. unat (BlockID (Block x)) = i) bs) [0..<n]
           then (concat (map (\<lambda>i. case find (\<lambda>x. unat (BlockID (Block x)) = i) bs of
                                      Some x \<Rightarrow> Block_Payload (Block x) | None \<Rightarrow> [])
                             [0..<n]), None)
           else ([], Some ''missing fragments'')))"

text \<open>
  Modelled from the spec: the \<open>Storage\<close> interface has no implementation among the
  sources. The spec: persistence of accumulated ingress fragments keyed by message
  identifier, with operations get-fragments-by-message-id, put-fragment and
  add/remove-SURB-key-record. Here an in-memory store of the fragments; each operation
  fails with the error its \<open>_err\<close> field gives for the key, and of the SURB key
  records only that is kept.
\<close>

record Storage =
  ingress :: "msgid \<Rightarrow> bytes list"
  GetIngressBlocks_err :: "msgid \<Rightarrow> string option"
  PutIngressBlock_err :: "msgid \<Rightarrow> string option"
  AddSURBKeys_err :: "surbid \<Rightarrow> string option"
  RemoveSURBKey_err :: "surbid \<Rightarrow> string option"

definition GetIngressBlocks :: "Storage \<Rightarrow> msgid \<Rightarrow> string + bytes list" where
  "GetIngressBlocks st k =
     (case GetIngressBlocks_err st k of Some err \<Rightarrow> Inl err | None \<Rightarrow> Inr (ingress st k))"

definition PutIngressBlock :: "Storage \<Rightarrow> msgid \<Rightarrow> bytes \<Rightarrow> string + Storage" where
  "PutIngressBlock st k raw =
     (case PutIngressBlock_err st k of
        Some err \<Rightarrow> Inl err
      | None \<Rightarrow> Inr (st\<lparr>ingress := (ingress st)(k := ingress st k @ [raw])\<rparr>))"

text \<open>
  The client session: the SURB key map, the storage, and what the session has done
  to its collaborators, in order: the errors it logged, the calls it made on the
  message consumer, and the SURB ids it passed to \<open>CancelRetransmission\<close>.
\<close>

datatype notification = ReceivedMessage PublicKey bytes | ReceivedACK msgid

record client_Session =
  surbKeyMap :: "surbid \<rightharpoonup> bytes"
  storage :: Storage
  errors_logged :: "string list"
  consumer :: "notification list"
  cancelled :: "surbid list"

definition Errorf :: "string \<Rightarrow> client_Session \<Rightarrow> client_Session" where
  "Errorf msg s = s\<lparr>errors_logged := errors_logged s @ [msg]\<rparr>"

definition notify :: "notification \<Rightarrow> client_Session \<Rightarrow> client_Session" where
  "notify n s = s\<lparr>consumer := consumer s @ [n]\<rparr>"

definition onMessage :: "Libs \<Rightarrow> client_Session \<Rightarrow> bytes \<Rightarrow> (client_Session \<times> string option) outcome" where
  "onMessage l s ciphertextBlock =
     (case DecryptBlock l ciphertextBlock of
        Inl err \<Rightarrow> Ok (s, Some err)
      | Inr (rBlock, senderPubKey) \<Rightarrow>
          (if TotalBlocks rBlock = 1 then
             Ok (notify (ReceivedMessage senderPubKey (Block_Payload rBlock)) s, None)
           else
             (let ingressBlock = \<lparr>Version = 0, SenderPubKey = senderPubKey, Block = rBlock\<rparr> in
              case GetIngressBlocks (storage s) (MessageID rBlock) of
                Inl err \<Rightarrow> Ok (s, Some err)
              | Inr rawStoredBlocks \<Rightarrow>
                  (case ToBytes l ingressBlock of
                     Inl err \<Rightarrow> Ok (s, Some err)
                   | Inr rawBlock \<Rightarrow>
                       (case FromBytes_all l (rawStoredBlocks @ [rawBlock]) of
                          Panic p \<Rightarrow> Panic p
                        | Ok (Inl err) \<Rightarrow> Ok (s, Some err)
                        | Ok (Inr ingressBlocks) \<Rightarrow>
                            (case reassemble ingressBlocks of
                               (message, Some err) \<Rightarrow>
                                 (case PutIngressBlock (storage s) (MessageID rBlock) rawBlock of
                                    Inl err' \<Rightarrow> Ok (s, Some err')
                                  | Inr st \<Rightarrow>
                                      Ok (notify (ReceivedMessage senderPubKey message)
                                            (s\<lparr>storage := st\<rparr>), None))
                             | (message, None) \<Rightarrow>
                                 Ok (notify (ReceivedMessage senderPubKey message) s, None)))))))"

text \<open>The transport calling \<open>onMessage\<close> for one ciphertext block after another.\<close>

fun deliver :: "Libs \<Rightarrow> bytes list \<Rightarrow> client_Session \<Rightarrow> client_Session outcome" where
  "deliver l [] s = Ok s"
| "deliver l (c # cs) s =
     (case onMessage l s c of Panic p \<Rightarrow> Panic p | Ok (s', err) \<Rightarrow> deliver l cs s')"

text \<open>
  \<open>AddSURBKeys\<close> looks up the manifest's own SURB id (a pointer, nil in a block just
  built by \<open>Send\<close>) and stores the keys under the id passed as argument.
\<close>

definition AddSURBKeys ::
  "client_Session \<Rightarrow> surbid \<Rightarrow> EgressBlock \<Rightarrow> (client_Session \<times> string option) outcome" where
  "AddSURBKeys s surbid surbKeyManifest =
     (case Egress_SURBID surbKeyManifest of
        None \<Rightarrow> Panic nil_dereference
      | Some k \<Rightarrow>
          (case surbKeyMap s k of
             Some v \<Rightarrow>
               Ok (Errorf ''failure: SURB ID already present in surbKeyMap'' s,
                   Some ''failure: SURB ID already present in surbKeyMap'')
           | None \<Rightarrow>
               Ok (s\<lparr>surbKeyMap := (surbKeyMap s)(surbid \<mapsto> SURBKeys surbKeyManifest)\<rparr>,
                   AddSURBKeys_err (storage s) surbid)))"

definition onACK :: "Libs \<Rightarrow> client_Session \<Rightarrow> surbid \<Rightarrow> bytes \<Rightarrow> client_Session \<times> string option" where
  "onACK l s surbid message =
     (case surbKeyMap s surbid of
        None \<Rightarrow> (Errorf ''failure: SURB key not found for received ACK'' s, None)
      | Some surbKeys \<Rightarrow>
          (let s1 = s\<lparr>surbKeyMap := (surbKeyMap s)(surbid := None)\<rparr> in
           case RemoveSURBKey_err (storage s1) surbid of
             Some err \<Rightarrow> (Errorf ''failure: failure to remove SURB key'' s1, None)
           | None \<Rightarrow>
               (case DecryptSURBPayload l message surbKeys of
                  Inl err \<Rightarrow>
                    (Errorf ''failure: ACK SURB replay message decrypt error'' s1, None)
                | Inr plaintext \<Rightarrow>
                    (if \<not> CtIsZero plaintext then
                       (Errorf ''failure: decrypted ACK payload is not all 0x00'' s1, None)
                     else
                       (let s2 = s1\<lparr>cancelled := cancelled s1 @ [surbid]\<rparr> in
                        case CancelRetransmission l surbid of
                          Some err \<Rightarrow>
                            (Errorf ''failure: retransmission cancellation error'' s2, None)
                        | None \<Rightarrow> (s2, None))))))"

section \<open>The bound on transmissions\<close>

text \<open>Every message of the store has been transmitted between 0 and \<open>maxTransmissions\<close> times.\<close>

definition bounded :: "Session \<Rightarrow> bool" where
  "bounded s =
     (\<forall>a m. heap s a = Some m \<longrightarrow> 0 \<le> Transmissions m \<and> Transmissions m \<le> maxTransmissions)"

section \<open>Example inputs\<close>

definition id_A :: msgid where
  "id_A = [1, 1, 1, 1, 1, 1, 1, 1, 1, 1, 1, 1, 1, 1, 1, 1]"

definition surb_1 :: surbid where
  "surb_1 = [0, 0, 0, 0, 0, 0, 0, 0, 0, 0, 0, 0, 0, 0, 0, 1]"

definition surb_2 :: surbid where
  "surb_2 = [0, 0, 0, 0, 0, 0, 0, 0, 0, 0, 0, 0, 0, 0, 0, 2]"

definition surb_3 :: surbid where
  "surb_3 = [0, 0, 0, 0, 0, 0, 0, 0, 0, 0, 0, 0, 0, 0, 0, 3]"

definition surb_4 :: surbid where
  "surb_4 = [0, 0, 0, 0, 0, 0, 0, 0, 0, 0, 0, 0, 0, 0, 0, 4]"

text \<open>
  A transport that accepts every packet and estimates a round trip of two seconds,
  with the SURB id and the clock's reading of the call; a compose environment whose
  random source yields \<open>id_A\<close> and whose egress queue accepts every message.
\<close>

definition send_env :: "surbid \<Rightarrow> int \<Rightarrow> SendEnv" where
  "send_env sid now =
     \<lparr>rand_surbID = sid, SendCiphertext = (\<lambda>r p s pl. Inr ([7], 2000000000)), time_Now = now\<rparr>"

definition compose_env :: ComposeEnv where
  "compose_env =
     \<lparr>rand_ID = id_A, UserForwardPayloadLength = 4, SurbTypeACK = 0, SurbTypeKaetzchen = 1,
      egressQueue_Push = (\<lambda>q a. Inr (q @ [a]))\<rparr>"

text \<open>One reliable message, sent and then retransmitted, each time with a new SURB id.\<close>

definition sent_once :: "op list" where
  "sent_once = [OpSendMessage compose_env ''alice'' ''provider'' [9] True False,
                OpDoSend (send_env surb_1 0) 0]"

definition sent_twice :: "op list" where
  "sent_twice = sent_once @ [OpDoSend (send_env surb_2 3000000000) 0]"

definition sent_thrice :: "op list" where
  "sent_thrice = sent_twice @ [OpDoSend (send_env surb_3 6000000000) 0]"

text \<open>
  Two messages with a reply estimate of two seconds, sent at 0 s and at 1 s, both
  transmitted once: their expiries are 5 s and 6 s.
\<close>

definition first_message :: Message where
  "first_message =
     \<lparr>ID = id_A, Recipient = ''alice'', Provider = ''provider'', Payload = [],
      SentAt = 0, ReplyETA = 2000000000, SURBID = None, Key = [], Reply = [], SURBType = 0,
      Reliable = True, Transmissions = 1\<rparr>"

definition second_message :: Message where
  "second_message = first_message\<lparr>SentAt := 1000000000\<rparr>"

definition two_messages :: "addr \<rightharpoonup> Message" where
  "two_messages = [0 \<mapsto> first_message, 1 \<mapsto> second_message]"

definition empty_TimerQ :: TimerQ where
  "empty_TimerQ = \<lparr>priq = [], signals = 0\<rparr>"

definition one_pushed :: TimerQ where
  "one_pushed = \<lparr>priq = [\<lparr>Value = 0, Priority = 5000000000\<rparr>], signals = 1\<rparr>"

definition both_pushed :: TimerQ where
  "both_pushed =
     \<lparr>priq = [\<lparr>Value = 0, Priority = 5000000000\<rparr>, \<lparr>Value = 1, Priority = 6000000000\<rparr>],
      signals = 2\<rparr>"

text \<open>
  A message sent at 0 s with a reply estimate of 10 s (expiry 25 s, reply due at 10 s)
  and one sent at 11 s with a reply estimate of 1 s (expiry 13.5 s, reply due at
  12 s), both transmitted once; and the queue after both were pushed.
\<close>

definition late_message :: Message where
  "late_message = first_message\<lparr>SentAt := 0, ReplyETA := 10000000000\<rparr>"

definition recent_message :: Message where
  "recent_message = first_message\<lparr>SentAt := 11000000000, ReplyETA := 1000000000\<rparr>"

definition late_and_recent :: "addr \<rightharpoonup> Message" where
  "late_and_recent = [0 \<mapsto> late_message, 1 \<mapsto> recent_message]"

definition late_pushed :: TimerQ where
  "late_pushed = \<lparr>priq = [\<lparr>Value = 0, Priority = 25000000000\<rparr>], signals = 1\<rparr>"

definition recent_before_late :: TimerQ where
  "recent_before_late =
     \<lparr>priq = [\<lparr>Value = 1, Priority = 13500000000\<rparr>, \<lparr>Value = 0, Priority = 25000000000\<rparr>],
      signals = 2\<rparr>"

text \<open>A downstream queue that takes every message, and one that refuses every message.\<close>

definition list_queue :: "addr list nqueue" where
  "list_queue q m = Inr (q @ [m])"

definition full_queue :: "addr list nqueue" where
  "full_queue q m = Inl ''queue is full''"

definition sender_key :: PublicKey where
  "sender_key = [5, 5, 5, 5, 5, 5, 5, 5, 5, 5, 5, 5, 5, 5, 5, 5,
                 5, 5, 5, 5, 5, 5, 5, 5, 5, 5, 5, 5, 5, 5, 5, 5]"

text \<open>
  Example libraries. A block is serialised as its message id, its block count and
  index (one byte each) and its payload. A ciphertext block decrypts to a block of a
  three-block message of id \<open>id_A\<close> from \<open>sender_key\<close>, whose index is the
  ciphertext's first byte and whose payload is the rest. A SURB payload decrypts to
  itself, and cancelling a retransmission succeeds.
\<close>

definition example_libs :: Libs where
  "example_libs =
     \<lparr>PublicKeySize = 32,
      MarshalBinary = (\<lambda>k. Inr k),
      PublicKey_FromBytes = (\<lambda>raw. Inr raw),
      Block_ToBytes =
        (\<lambda>b. Inr (MessageID b @ [ucast (TotalBlocks b), ucast (BlockID b)] @ Block_Payload b)),
      Block_FromBytes =
        (\<lambda>raw. Inr \<lparr>MessageID = take 16 raw, TotalBlocks = ucast (raw ! 16),
                     BlockID = ucast (raw ! 17), Block_Payload = drop 18 raw\<rparr>),
      DecryptBlock =
        (\<lambda>ct. Inr (\<lparr>MessageID = id_A, TotalBlocks = 3, BlockID = ucast (hd ct),
                     Block_Payload = tl ct\<rparr>, sender_key)),
      DecryptSURBPayload = (\<lambda>message keys. Inr message),
      CancelRetransmission = (\<lambda>surbid. None)\<rparr>"

definition working_storage :: Storage where
  "working_storage =
     \<lparr>ingress = (\<lambda>k. []), GetIngressBlocks_err = (\<lambda>k. None), PutIngressBlock_err = (\<lambda>k. None),
      AddSURBKeys_err = (\<lambda>k. None), RemoveSURBKey_err = (\<lambda>k. None)\<rparr>"

definition new_client_Session :: client_Session where
  "new_client_Session =
     \<lparr>surbKeyMap = Map.empty, storage = working_storage, errors_logged = [], consumer = [],
      cancelled = []\<rparr>"

text \<open>
  A client session that holds keys for \<open>surb_1\<close>, and the same session over a storage
  whose \<open>RemoveSURBKey\<close> fails.
\<close>

definition awaiting_ack :: client_Session where
  "awaiting_ack = new_client_Session\<lparr>surbKeyMap := [surb_1 \<mapsto> [9, 9]]\<rparr>"

definition awaiting_ack_storage_down :: client_Session where
  "awaiting_ack_storage_down =
     awaiting_ack\<lparr>storage := working_storage\<lparr>RemoveSURBKey_err := (\<lambda>k. Some ''disk error'')\<rparr>\<rparr>"

definition manifest_for_surb_2 :: EgressBlock where
  "manifest_for_surb_2 =
     \<lparr>ReliableSend = True, Egress_Recipient = ''bob'', Egress_Provider = ''provider'',
      Egress_BlockID = 0, Egress_MessageID = Some id_A, Egress_Payload = [], Expiration = 0,
      Egress_SURBID = Some surb_2, SURBKeys = [8, 8]\<rparr>"

section \<open>Evaluation of the examples\<close>

lemmas go_arith = int64_def uint64_def UnixNano_def Add_def Sub_def quot_def maxDuration_def
  minDuration_def

lemma surb_distinct:
  "surb_1 \<noteq> surb_2" "surb_1 \<noteq> surb_3" "surb_2 \<noteq> surb_3"
  "surb_2 \<noteq> surb_1" "surb_3 \<noteq> surb_1" "surb_3 \<noteq> surb_2"
  by (simp_all add: surb_1_def surb_2_def surb_3_def)

lemma sent_twice_state:
  "\<exists>s m. run sent_twice empty_Session = Ok s \<and> heap s 0 = Some m \<and>
     Transmissions m = 2 \<and> SURBID m = None \<and>
     surbIDMap s surb_1 = Some 0 \<and> surbIDMap s surb_2 = Some 0"
  by (simp add: sent_twice_def sent_once_def send_env_def compose_env_def empty_Session_def
        SendMessage_def composeMessage_def doSend_def Push_def expiry_def go_arith Let_def
        maxTransmissions_def surb_distinct)

lemma sent_thrice_state:
  "\<exists>s m. run sent_thrice empty_Session = Ok s \<and> heap s 0 = Some m \<and> Transmissions m = 3 \<and>
     messageIDMap s id_A = Some 0 \<and> replyNotifyMap s id_A = Some True \<and>
     surbIDMap s surb_1 = Some 0 \<and> surbIDMap s surb_2 = Some 0 \<and> surbIDMap s surb_3 = Some 0"
  by (simp add: sent_thrice_def sent_twice_def sent_once_def send_env_def compose_env_def
        empty_Session_def SendMessage_def composeMessage_def doSend_def Push_def expiry_def
        go_arith Let_def maxTransmissions_def surb_distinct)

section \<open>doSend and the transmission count\<close>

lemmas doSend_splits = option.splits if_splits sum.splits outcome.splits prod.splits

lemma doSend_inv:
  assumes "doSend env s a = Ok (s', r)" and "heap s b = Some m"
    and "0 \<le> Transmissions m" and "Transmissions m \<le> maxTransmissions"
    and "heap s' b = Some m'"
  shows "0 \<le> Transmissions m' \<and> Transmissions m' \<le> maxTransmissions"
  using assms
  by (auto simp: doSend_def Push_def Let_def maxTransmissions_def int64_def split: doSend_splits)

lemma doSend_heap_back:
  assumes "doSend env s a = Ok (s', r)" and "heap s' b = Some m'"
  shows "\<exists>m. heap s b = Some m"
  using assms
  by (auto simp: doSend_def Push_def Let_def split: doSend_splits)

lemma doSend_counts_up:
  assumes "doSend env s a = Ok (s', r)" and "heap s a = Some m"
    and "0 \<le> Transmissions m" and "Transmissions m \<le> maxTransmissions"
    and "heap s' a = Some m'"
  shows "Transmissions m \<le> Transmissions m'"
  using assms
  by (auto simp: doSend_def Push_def Let_def maxTransmissions_def int64_def split: doSend_splits)

lemma doSend_gives_up:
  "heap s a = Some m \<Longrightarrow> 0 < Transmissions m \<Longrightarrow> maxTransmissions \<le> Transmissions m \<Longrightarrow>
   doSend env s a = Ok (s, None)"
  by (simp add: doSend_def)

lemma doSend_bounded:
  assumes "bounded s" and "doSend env s a = Ok (s', r)"
  shows "bounded s'"
  unfolding bounded_def
proof (intro allI impI)
  fix b m'
  assume h: "heap s' b = Some m'"
  from doSend_heap_back[OF assms(2) h] obtain m where m: "heap s b = Some m" by blast
  with assms(1) have "0 \<le> Transmissions m \<and> Transmissions m \<le> maxTransmissions"
    by (simp add: bounded_def)
  with doSend_inv[OF assms(2) m _ _ h]
  show "0 \<le> Transmissions m' \<and> Transmissions m' \<le> maxTransmissions" by simp
qed

lemma SendMessage_bounded:
  "bounded s \<Longrightarrow> bounded (fst (SendMessage env s recipient provider message reliable query))"
  by (auto simp: bounded_def SendMessage_def composeMessage_def Let_def maxTransmissions_def
           split: sum.splits if_splits)

lemma sendLoopDecoy_bounded:
  assumes "bounded s" and "sendLoopDecoy GetService cenv env s = Ok (s', r)"
  shows "bounded s'"
proof (cases "GetService ''loop''")
  case (Inl err)
  with assms show ?thesis by (simp add: sendLoopDecoy_def)
next
  case (Inr d)
  obtain name provider where d: "d = (name, provider)" by (cases d)
  define msg where "msg = \<lparr>ID = rand_ID cenv, Recipient = name, Provider = provider,
      Payload = replicate (UserForwardPayloadLength cenv) 0,
      SentAt = 0, ReplyETA = 0, SURBID = None, Key = [], Reply = [],
      SURBType = 0, Reliable = False, Transmissions = 0\<rparr>"
  define s1 where "s1 = s\<lparr>heap := (heap s)(next_addr s \<mapsto> msg), next_addr := next_addr s + 1\<rparr>"
  have "bounded s1"
    using assms(1) by (auto simp: bounded_def s1_def msg_def maxTransmissions_def)
  moreover have "doSend env s1 (next_addr s) = Ok (s', r)"
    using assms(2) Inr d by (simp add: sendLoopDecoy_def Let_def s1_def msg_def)
  ultimately show ?thesis by (rule doSend_bounded)
qed

lemma step_bounded: "bounded s \<Longrightarrow> step x s = Ok s' \<Longrightarrow> bounded s'"
  by (cases x)
     (auto simp: SendMessage_bounded split: outcome.splits prod.splits
           dest: doSend_bounded sendLoopDecoy_bounded)

lemma run_bounded: "bounded s \<Longrightarrow> run xs s = Ok s' \<Longrightarrow> bounded s'"
proof (induction xs arbitrary: s)
  case Nil
  then show ?case by simp
next
  case (Cons x xs)
  then show ?case by (auto split: outcome.splits dest: step_bounded)
qed

text \<open>
  C7. In every state a session reaches from its start by any sequence of
  \<open>SendMessage\<close>, \<open>sendLoopDecoy\<close> and \<open>doSend\<close> calls, whatever the transport
  answers, every message has \<open>0 \<le> Transmissions \<le> maxTransmissions\<close> (which is 3).
  A message on which \<open>doSend\<close> gives up (its test \<open>Transmissions \<ge> maxTransmissions\<close>
  holds) has been transmitted exactly \<open>maxTransmissions\<close> times and \<open>doSend\<close> leaves
  it as it is; and no call of \<open>doSend\<close> takes the count past \<open>maxTransmissions\<close>.
\<close>

theorem transmissions_within_bounds:
  assumes "run ops empty_Session = Ok s" and "heap s a = Some m"
  shows "0 \<le> Transmissions m \<and> Transmissions m \<le> maxTransmissions \<and>
         (0 < Transmissions m \<and> maxTransmissions \<le> Transmissions m \<longrightarrow>
            Transmissions m = maxTransmissions \<and> doSend env s a = Ok (s, None)) \<and>
         (\<forall>s' r m'. doSend env s a = Ok (s', r) \<and> heap s' a = Some m' \<longrightarrow>
            Transmissions m \<le> Transmissions m' \<and> Transmissions m' \<le> maxTransmissions)"
proof -
  have "bounded empty_Session" by (simp add: bounded_def empty_Session_def)
  from run_bounded[OF this assms(1)] have "bounded s" .
  with assms(2) have t: "0 \<le> Transmissions m \<and> Transmissions m \<le> maxTransmissions"
    by (simp add: bounded_def)
  have g: "0 < Transmissions m \<and> maxTransmissions \<le> Transmissions m \<longrightarrow>
             Transmissions m = maxTransmissions \<and> doSend env s a = Ok (s, None)"
    using t doSend_gives_up[OF assms(2)] by auto
  have n: "\<forall>s' r m'. doSend env s a = Ok (s', r) \<and> heap s' a = Some m' \<longrightarrow>
             Transmissions m \<le> Transmissions m' \<and> Transmissions m' \<le> maxTransmissions"
    using doSend_inv doSend_counts_up assms(2) t by blast
  from t g n show ?thesis by blast
qed

theorem transmissions_within_bounds_witness:
  "\<exists>s m. run sent_thrice empty_Session = Ok s \<and> heap s 0 = Some m \<and>
     Transmissions m = maxTransmissions \<and>
     doSend (send_env surb_4 9000000000) s 0 = Ok (s, None)"
proof -
  from sent_thrice_state obtain s m where
    h: "run sent_thrice empty_Session = Ok s" "heap s 0 = Some m" "Transmissions m = 3"
    by blast
  from transmissions_within_bounds[OF h(1) h(2), of "send_env surb_4 9000000000"] h(3)
  have "Transmissions m = maxTransmissions \<and> doSend (send_env surb_4 9000000000) s 0 = Ok (s, None)"
    by (simp add: maxTransmissions_def)
  with h show ?thesis by blast
qed

section \<open>doSend and the SURB map\<close>

lemma doSend_keeps_surbIDMap:
  "doSend env s a = Ok (s', r) \<Longrightarrow> surbIDMap s k = Some b \<Longrightarrow> k \<noteq> rand_surbID env \<Longrightarrow>
   surbIDMap s' k = Some b"
  by (auto simp: doSend_def Push_def Let_def split: doSend_splits)

lemma doSend_keeps_SURBID:
  "doSend env s a = Ok (s', r) \<Longrightarrow> heap s a = Some m \<Longrightarrow> heap s' a = Some m' \<Longrightarrow>
   SURBID m' = SURBID m"
  by (auto simp: doSend_def Push_def Let_def split: doSend_splits)

text \<open>
  C1. A reliable message is sent with SURB id \<open>surb_1\<close> and retransmitted with SURB id
  \<open>surb_2\<close>, the transport accepting both. After the retransmission the SURB map
  still maps \<open>surb_1\<close> to the message, next to \<open>surb_2\<close>, and the message's own
  \<open>SURBID\<close> field is still unset: \<open>doSend\<close> adds the new id and neither replaces nor
  removes the old one.
\<close>

theorem doSend_retransmission_keeps_old_surbID:
  "\<exists>s m. run sent_twice empty_Session = Ok s \<and> heap s 0 = Some m \<and>
     Transmissions m = 2 \<and> SURBID m = None \<and>
     surbIDMap s surb_1 = Some 0 \<and> surbIDMap s surb_2 = Some 0"
  by (rule sent_twice_state)

text \<open>
  C2. A reliable message has been transmitted three times. The call of \<open>doSend\<close> for
  the next retransmission returns nil and leaves the session exactly as it was: the
  message is still in the message-id map and the SURB map, its reply mutex is still
  locked, and \<open>WaitForReply\<close> on its id still blocks.
\<close>

theorem doSend_exhausted_leaves_message_registered:
  "\<exists>s m. run sent_thrice empty_Session = Ok s \<and> heap s 0 = Some m \<and> Transmissions m = 3 \<and>
     doSend (send_env surb_4 9000000000) s 0 = Ok (s, None) \<and>
     messageIDMap s id_A = Some 0 \<and> surbIDMap s surb_3 = Some 0 \<and>
     replyNotifyMap s id_A = Some True \<and> WaitForReply s id_A = Ok Blocked"
proof -
  from sent_thrice_state obtain s m where
    h: "run sent_thrice empty_Session = Ok s" "heap s 0 = Some m" "Transmissions m = 3"
       "messageIDMap s id_A = Some 0" "replyNotifyMap s id_A = Some True"
       "surbIDMap s surb_3 = Some 0"
    by blast
  have "doSend (send_env surb_4 9000000000) s 0 = Ok (s, None)"
    using doSend_gives_up[OF h(2)] h(3) by (simp add: maxTransmissions_def)
  moreover have "WaitForReply s id_A = Ok Blocked"
    using h(5) by (simp add: WaitForReply_def)
  ultimately show ?thesis using h by blast
qed

section \<open>WaitForReply\<close>

text \<open>
  C10. \<open>WaitForReply\<close> on a message id with no entry in \<open>replyNotifyMap\<close> panics with a
  nil dereference; whenever it comes back without a panic (returning or blocking) the
  id has an entry; and on the id that a successful \<open>SendMessage\<close> returned it does not
  panic: it blocks on the mutex \<open>SendMessage\<close> locked.
\<close>

theorem WaitForReply_needs_registration:
  "(replyNotifyMap s msgId = None \<longrightarrow> WaitForReply s msgId = Panic nil_dereference) \<and>
   (\<forall>r. WaitForReply s msgId = Ok r \<longrightarrow> replyNotifyMap s msgId \<noteq> None) \<and>
   (\<forall>s' i. SendMessage env s recipient provider message reliable query = (s', Inr i) \<longrightarrow>
        WaitForReply s' i = Ok Blocked)"
  by (auto simp: WaitForReply_def SendMessage_def composeMessage_def Let_def
           split: option.splits if_splits sum.splits)

theorem WaitForReply_needs_registration_witness:
  "WaitForReply empty_Session id_A = Panic nil_dereference \<and>
   WaitForReply (fst (SendMessage compose_env empty_Session ''alice'' ''provider'' [9] True False))
     id_A = Ok Blocked"
proof -
  have a: "replyNotifyMap empty_Session id_A = None" by (simp add: empty_Session_def)
  have b: "SendMessage compose_env empty_Session ''alice'' ''provider'' [9] True False =
      (fst (SendMessage compose_env empty_Session ''alice'' ''provider'' [9] True False), Inr id_A)"
    by (simp add: SendMessage_def composeMessage_def compose_env_def Let_def)
  from WaitForReply_needs_registration
         [of empty_Session id_A compose_env "''alice''" "''provider''" "[9]" True False] a b
  show ?thesis by blast
qed

section \<open>The timer queue\<close>

lemma set_Enqueue: "set (priq_Enqueue p v q) = insert \<lparr>Value = v, Priority = p\<rparr> (set q)"
  by (induction q) auto

lemma sorted_Enqueue:
  "sorted (map Priority q) \<Longrightarrow> sorted (map Priority (priq_Enqueue p v q))"
  by (induction q) (auto simp: set_Enqueue)

lemma Remove_behind_head_does_nothing:
  "priq_Peek (priq a) = Some mo \<Longrightarrow> Value mo \<noteq> m \<Longrightarrow> Remove h a m = Ok (a, None)"
  by (simp add: Remove_def)

text \<open>
  C3. Two messages are pushed, with expiries 5 s and 6 s, and \<open>Remove\<close> is called for
  the second one, which is not at the head. \<open>Remove\<close> returns nil and leaves the
  queue as it was; the worker, run at 4 s (past the reply estimates of both), forwards
  both messages downstream, the removed one included. And \<open>Remove\<close> on an empty queue
  (its entry has fired or was removed before) panics in its switch instead of
  returning nil.
\<close>

theorem Remove_of_entry_behind_head_is_lost:
  "Push two_messages empty_TimerQ 0 = Ok one_pushed \<and>
   Push two_messages one_pushed 1 = Ok both_pushed \<and>
   Remove two_messages both_pushed 1 = Ok (both_pushed, None) \<and>
   worker two_messages list_queue [(4000000000, WakeupCh), (4000000000, WakeupCh)]
       (both_pushed, []) =
     Ok (\<lparr>priq = [], signals = 2\<rparr>, [0, 1]) \<and>
   Remove two_messages empty_TimerQ 0 =
     Panic ''interface conversion: interface {} is nil, not *session.Message''"
  by (simp add: Push_def Remove_def forward_def worker_turn_def timeLeft_def expiry_def go_arith
        Let_def priq_Peek_def priq_Pop_def priq_Len_def empty_TimerQ_def one_pushed_def both_pushed_def
        two_messages_def first_message_def second_message_def list_queue_def)

lemma expiry_exact:
  assumes "0 \<le> SentAt m" and "0 \<le> ReplyETA m"
    and "0 \<le> Transmissions m" and "Transmissions m \<le> maxTransmissions"
    and "SentAt m + ReplyETA m div 2 + (Transmissions m + 1) * ReplyETA m < 2 ^ 63"
  shows "expiry m = SentAt m + ReplyETA m div 2 + (Transmissions m + 1) * ReplyETA m"
proof -
  have t: "int64 (Transmissions m + 1) = Transmissions m + 1"
    using assms(3,4) by (simp add: int64_def maxTransmissions_def)
  have p0: "0 \<le> (Transmissions m + 1) * ReplyETA m" using assms(2,3) by simp
  have d0: "0 \<le> ReplyETA m div 2" using assms(2) by simp
  have p1: "(Transmissions m + 1) * ReplyETA m < 2 ^ 63" using assms(1,5) d0 by linarith
  have p: "int64 ((Transmissions m + 1) * ReplyETA m) = (Transmissions m + 1) * ReplyETA m"
    using p0 p1 by (simp add: int64_def)
  have q: "quot (ReplyETA m) 2 = ReplyETA m div 2" using assms(2) by (simp add: quot_def)
  have s0: "0 \<le> SentAt m + ReplyETA m div 2 + (Transmissions m + 1) * ReplyETA m"
    using assms(1) d0 p0 by linarith
  show ?thesis
    unfolding expiry_def Add_def UnixNano_def t p q
    using s0 assms(5) by (simp add: int64_def uint64_def)
qed

lemma timeLeft_negative_iff: "timeLeft m now < 0 \<longleftrightarrow> SentAt m + ReplyETA m < now"
  by (auto simp: timeLeft_def Sub_def Add_def maxDuration_def minDuration_def)

lemma timeLeft_exact:
  "now \<le> SentAt m + ReplyETA m \<Longrightarrow> SentAt m + ReplyETA m - now \<le> maxDuration \<Longrightarrow>
   timeLeft m now = SentAt m + ReplyETA m - now"
  by (auto simp: timeLeft_def Sub_def Add_def maxDuration_def minDuration_def)

lemma worker_turn_overdue:
  assumes "priq a = e # rest" and "h (Value e) = Some msg" and "nq q (Value e) = Inr q'"
    and "SentAt msg + ReplyETA msg < now"
  shows "worker_turn h nq now sel (a, q) = Ok (Forwarded now (a\<lparr>priq := rest\<rparr>, q'))"
  using assms
  by (simp add: worker_turn_def forward_def priq_Peek_def priq_Pop_def timeLeft_negative_iff)

lemma worker_turn_timer:
  assumes "priq a = e # rest" and "h (Value e) = Some msg" and "nq q (Value e) = Inr q'"
    and "now \<le> SentAt msg + ReplyETA msg" and "SentAt msg + ReplyETA msg - now \<le> maxDuration"
  shows "worker_turn h nq now TimerCh (a, q) =
           Ok (Forwarded (SentAt msg + ReplyETA msg) (a\<lparr>priq := rest\<rparr>, q'))"
    and "worker_turn h nq now WakeupCh (a, q) = Ok (Continue (a, q))"
  using assms timeLeft_exact[OF assms(4,5)]
  by (simp_all add: worker_turn_def forward_def priq_Peek_def priq_Pop_def Let_def)

text \<open>
  C5. \<open>Push\<close> enters the first example message under its expiry, 5 s. The worker
  does not wait for that instant. Looking at the queue at 2.000000001 s it pops the
  message and pushes it downstream at once; looking at 0 s it arms its timer for the
  2 s left until \<open>SentAt + ReplyETA\<close> and pops and pushes the message when the timer
  delivers, at 2 s. The two rules also disagree with each other: of the messages
  \<open>late_message\<close> and \<open>recent_message\<close> the queue puts the recent one first (expiry
  13.5 s before 25 s), and at 11.5 s the worker, woken, forwards nothing, because the
  head has 0.5 s left, while the late message behind it is 1.5 s past its
  \<open>SentAt + ReplyETA\<close>.
\<close>

theorem worker_waits_for_reply_eta_not_expiry:
  "expiry first_message = 5000000000 \<and>
   Push two_messages empty_TimerQ 0 = Ok one_pushed \<and>
   worker_turn two_messages list_queue 2000000001 WakeupCh (one_pushed, []) =
     Ok (Forwarded 2000000001 (\<lparr>priq = [], signals = 1\<rparr>, [0])) \<and>
   worker_turn two_messages list_queue 0 TimerCh (one_pushed, []) =
     Ok (Forwarded 2000000000 (\<lparr>priq = [], signals = 1\<rparr>, [0])) \<and>
   Push late_and_recent empty_TimerQ 0 = Ok late_pushed \<and>
   Push late_and_recent late_pushed 1 = Ok recent_before_late \<and>
   timeLeft late_message 11500000000 = - 1500000000 \<and>
   timeLeft recent_message 11500000000 = 500000000 \<and>
   worker_turn late_and_recent list_queue 11500000000 WakeupCh (recent_before_late, []) =
     Ok (Continue (recent_before_late, []))"
  by (simp add: Push_def forward_def worker_turn_def timeLeft_def expiry_def go_arith Let_def
        priq_Peek_def priq_Pop_def empty_TimerQ_def one_pushed_def two_messages_def
        first_message_def second_message_def list_queue_def late_message_def
        recent_message_def late_and_recent_def late_pushed_def recent_before_late_def)

text \<open>
  C9, as stated, fails: with a downstream queue that refuses the message, \<open>forward\<close>
  panics, and so does the worker at its first turn; the second turn of the schedule
  is never run.
\<close>

theorem forward_error_stops_worker:
  "forward full_queue (both_pushed, []) = Panic ''queue is full'' \<and>
   worker two_messages full_queue [(4000000000, WakeupCh), (4000000000, WakeupCh)]
       (both_pushed, []) =
     Panic ''queue is full''"
  by (simp add: forward_def worker_turn_def timeLeft_def go_arith Let_def priq_Peek_def
        priq_Pop_def both_pushed_def two_messages_def first_message_def second_message_def full_queue_def)

text \<open>
  C9, amended. When the downstream queue's \<open>Push\<close> returns an error for the popped
  head, \<open>forward\<close> passes that error to \<open>panic\<close>: it is neither logged nor sent to a
  channel, and a worker whose turn reaches that \<open>forward\<close> (the head's time is up, or
  its timer fired) ends in the panic instead of going on with its loop.
\<close>

theorem forward_panics_on_downstream_error:
  assumes "priq_Peek (priq a) = Some e" and "nq q (Value e) = Inl err"
    and "h (Value e) = Some head_msg" and "timeLeft head_msg now < 0 \<or> sel = TimerCh"
  shows "forward nq (a, q) = Panic err \<and> worker h nq ((now, sel) # sched) (a, q) = Panic err"
proof -
  have f: "forward nq (a, q) = Panic err"
    using assms(1,2) by (auto simp: forward_def priq_Peek_def priq_Pop_def split: list.splits)
  have "worker_turn h nq now sel (a, q) = Panic err"
    using assms(1,3,4) f by (auto simp: worker_turn_def Let_def)
  with f show ?thesis by simp
qed

theorem forward_panics_on_downstream_error_witness:
  "forward full_queue (one_pushed, []) = Panic ''queue is full'' \<and>
   worker two_messages full_queue [(4000000000, HaltCh), (4000000000, WakeupCh)] (one_pushed, []) =
     Panic ''queue is full''"
proof -
  have h1: "priq_Peek (priq one_pushed) = Some \<lparr>Value = 0, Priority = 5000000000\<rparr>"
    by (simp add: one_pushed_def priq_Peek_def)
  have h2: "full_queue [] (Value \<lparr>Value = 0, Priority = 5000000000\<rparr>) = Inl ''queue is full''"
    by (simp add: full_queue_def)
  have h3: "two_messages (Value \<lparr>Value = 0, Priority = 5000000000\<rparr>) = Some first_message"
    by (simp add: two_messages_def)
  have h4: "timeLeft first_message 4000000000 < 0 \<or> HaltCh = TimerCh"
    by (simp add: timeLeft_negative_iff first_message_def)
  from forward_panics_on_downstream_error
         [where nq = full_queue and q = "[]" and h = two_messages and a = one_pushed
            and sched = "[(4000000000, WakeupCh)]", OF h1 h2 h3 h4]
  show ?thesis .
qed

section \<open>The client session\<close>

lemma upt_3: "[0..<3] = [0, 1, 2]"
  by (simp add: upt_rec)

lemma onMessage_after_failed_reassembly:
  assumes "DecryptBlock l ciphertextBlock = Inr (rBlock, senderPubKey)"
    and "TotalBlocks rBlock \<noteq> 1"
    and "GetIngressBlocks (storage s) (MessageID rBlock) = Inr rawStoredBlocks"
    and "ToBytes l \<lparr>Version = 0, SenderPubKey = senderPubKey, Block = rBlock\<rparr> = Inr rawBlock"
    and "FromBytes_all l (rawStoredBlocks @ [rawBlock]) = Ok (Inr ingressBlocks)"
    and "reassemble ingressBlocks = (message, Some err)"
    and "PutIngressBlock (storage s) (MessageID rBlock) rawBlock = Inr st"
  shows "onMessage l s ciphertextBlock =
           Ok (notify (ReceivedMessage senderPubKey message) (s\<lparr>storage := st\<rparr>), None)"
  using assms by (simp add: onMessage_def Let_def)

text \<open>
  C6. The first fragment (index 0) of a three-block message arrives at a new session.
  Reassembly fails and the raw block is stored, and then \<open>onMessage\<close> runs on into the
  consumer call: the consumer is notified with the empty message that the failed
  reassembly returned, and \<open>onMessage\<close> returns nil. With the fragments arriving in
  the order 0, 2, 1 the consumer is notified three times, the first two times with
  an empty message.
\<close>

theorem onMessage_notifies_with_fragments_missing:
  "(\<exists>s'. onMessage example_libs new_client_Session [0, 65] = Ok (s', None) \<and>
      consumer s' = [ReceivedMessage sender_key []] \<and>
      length (ingress (storage s') id_A) = 1) \<and>
   (\<exists>s'. deliver example_libs [[0, 65], [2, 67], [1, 66]] new_client_Session = Ok s' \<and>
      consumer s' = [ReceivedMessage sender_key [], ReceivedMessage sender_key [],
                     ReceivedMessage sender_key [65, 66, 67]])"
  by (simp add: onMessage_def ToBytes_def FromBytes_def reassemble_def GetIngressBlocks_def
        PutIngressBlock_def notify_def Let_def IngressBlockVersion_def example_libs_def
        working_storage_def new_client_Session_def id_A_def sender_key_def upt_3)

lemma onACK_returns_nil: "snd (onACK l s surbid message) = None"
  by (simp add: onACK_def Let_def split: option.splits sum.splits)

lemma onACK_deletes_key: "surbKeyMap (fst (onACK l s surbid message)) surbid = None"
  by (simp add: onACK_def Let_def Errorf_def split: option.splits sum.splits)

lemma onACK_unknown_id:
  "surbKeyMap s surbid = None \<Longrightarrow>
   onACK l s surbid message = (Errorf ''failure: SURB key not found for received ACK'' s, None)"
  by (simp add: onACK_def)

lemma AddSURBKeys_tests_manifest_id:
  assumes "Egress_SURBID surbKeyManifest = Some k" and "surbKeyMap s k = None"
  shows "AddSURBKeys s surbid surbKeyManifest =
           Ok (s\<lparr>surbKeyMap := (surbKeyMap s)(surbid \<mapsto> SURBKeys surbKeyManifest)\<rparr>,
               AddSURBKeys_err (storage s) surbid)"
  using assms by (simp add: AddSURBKeys_def)

text \<open>
  C8. The session holds keys for \<open>surb_1\<close>. \<open>AddSURBKeys\<close> is called to register
  \<open>surb_1\<close> again, with a manifest whose own \<open>SURBID\<close> field is \<open>surb_2\<close>: the
  presence test looks up \<open>surb_2\<close>, finds nothing, and the keys stored for \<open>surb_1\<close>
  are overwritten; the call returns nil.
\<close>

theorem AddSURBKeys_overwrites_present_id:
  "\<exists>s'. surbKeyMap awaiting_ack surb_1 = Some [9, 9] \<and>
     AddSURBKeys awaiting_ack surb_1 manifest_for_surb_2 = Ok (s', None) \<and>
     surbKeyMap s' surb_1 = Some [8, 8]"
  by (simp add: AddSURBKeys_def awaiting_ack_def new_client_Session_def working_storage_def
        manifest_for_surb_2_def surb_1_def surb_2_def)

text \<open>
  C4, as stated, fails: the session holds keys for \<open>surb_1\<close>, the ACK's payload
  decrypts and is all zero, but the storage's \<open>RemoveSURBKey\<close> fails; \<open>onACK\<close> logs
  that and returns before it decrypts, and no cancellation is asked for.
\<close>

theorem onACK_valid_payload_not_cancelled:
  "surbKeyMap awaiting_ack_storage_down surb_1 = Some [9, 9] \<and>
   DecryptSURBPayload example_libs [0, 0, 0] [9, 9] = Inr [0, 0, 0] \<and> CtIsZero [0, 0, 0] \<and>
   cancelled (fst (onACK example_libs awaiting_ack_storage_down surb_1 [0, 0, 0])) = [] \<and>
   errors_logged (fst (onACK example_libs awaiting_ack_storage_down surb_1 [0, 0, 0])) =
     [''failure: failure to remove SURB key'']"
  by (simp add: onACK_def Let_def Errorf_def CtIsZero_def example_libs_def
        awaiting_ack_storage_down_def awaiting_ack_def new_client_Session_def
        working_storage_def)

text \<open>
  C4, amended. For an ACK whose SURB id is in the key map, \<open>onACK\<close> deletes the id
  from the map and returns nil in every case. It asks the scheduler to cancel the
  retransmission (\<open>CancelRetransmission\<close>, once, for that id) if and only if the
  storage's \<open>RemoveSURBKey\<close> succeeds, the SURB payload decrypts and the plaintext is
  all zero bytes. In every other case it asks for no cancellation and logs one
  error, so the retransmission stays scheduled.
\<close>

theorem onACK_cancels_iff_removed_and_zero:
  assumes "surbKeyMap s surbid = Some surbKeys"
  shows "snd (onACK l s surbid message) = None \<and>
         surbKeyMap (fst (onACK l s surbid message)) surbid = None \<and>
         (if RemoveSURBKey_err (storage s) surbid = None \<and>
             (\<exists>plaintext. DecryptSURBPayload l message surbKeys = Inr plaintext \<and>
                           CtIsZero plaintext)
          then cancelled (fst (onACK l s surbid message)) = cancelled s @ [surbid]
          else cancelled (fst (onACK l s surbid message)) = cancelled s \<and>
               (\<exists>e. errors_logged (fst (onACK l s surbid message)) = errors_logged s @ [e]))"
  using assms
  by (auto simp: onACK_def Let_def Errorf_def split: option.splits sum.splits)

theorem onACK_cancels_iff_removed_and_zero_witness:
  "cancelled (fst (onACK example_libs awaiting_ack surb_1 [0, 0, 0])) = [surb_1] \<and>
   cancelled (fst (onACK example_libs awaiting_ack surb_1 [0, 1, 0])) = [] \<and>
   snd (onACK example_libs awaiting_ack surb_1 [0, 0, 0]) = None"
proof -
  have k: "surbKeyMap awaiting_ack surb_1 = Some [9, 9]"
    by (simp add: awaiting_ack_def)
  have r: "RemoveSURBKey_err (storage awaiting_ack) surb_1 = None"
    by (simp add: awaiting_ack_def new_client_Session_def working_storage_def)
  have c: "cancelled awaiting_ack = []"
    by (simp add: awaiting_ack_def new_client_Session_def)
  have z: "\<exists>plaintext. DecryptSURBPayload example_libs [0, 0, 0] [9, 9] = Inr plaintext \<and>
             CtIsZero plaintext"
    by (simp add: example_libs_def CtIsZero_def)
  have n: "\<not> (\<exists>plaintext. DecryptSURBPayload example_libs [0, 1, 0] [9, 9] = Inr plaintext \<and>
             CtIsZero plaintext)"
    by (simp add: example_libs_def CtIsZero_def)
  from onACK_cancels_iff_removed_and_zero[OF k, of example_libs "[0, 0, 0]"]
       onACK_cancels_iff_removed_and_zero[OF k, of example_libs "[0, 1, 0]"] r c z n
  show ?thesis by simp
qed

end
